theory Spec2Isabelle
  imports Complex_Main "HOL-Library.Multiset"
begin

section \<open>JavaScript values and the operators the handlers use\<close>

text \<open>
  The request handlers receive the body that \<^verbatim>\<open>express.json()\<close> parsed: a JSON object whose
  properties hold arbitrary JSON values. An object is the list of its properties, each
  name once. A property that is not there reads as \<^verbatim>\<open>undefined\<close>, modelled as \<open>None\<close>.
  A JSON number is modelled by its exact rational value. Strings are lists of characters;
  the string methods are modelled on ASCII text.
\<close>

datatype json =
    JNull
  | JBool bool
  | JNum rat
  | JStr string
  | JArr "json list"
  | JObj "(string \<times> json) list"

type_synonym payload = "(string \<times> json) list"

definition js_get :: "payload \<Rightarrow> string \<Rightarrow> json option" where
  "js_get obj field = map_of obj field"

text \<open>Truthiness, as \<^verbatim>\<open>!x\<close>, \<^verbatim>\<open>x && y\<close>, \<^verbatim>\<open>x || y\<close> and \<^verbatim>\<open>x ? y : z\<close> test it.\<close>

fun truthy :: "json option \<Rightarrow> bool" where
  "truthy None = False"
| "truthy (Some JNull) = False"
| "truthy (Some (JBool b)) = b"
| "truthy (Some (JNum r)) = (r \<noteq> 0)"
| "truthy (Some (JStr s)) = (s \<noteq> [])"
| "truthy (Some (JArr xs)) = True"
| "truthy (Some (JObj kvs)) = True"

text \<open>\<^verbatim>\<open>x || d\<close> with a default \<open>d\<close> that is a JSON value.\<close>

definition or_default :: "json option \<Rightarrow> json \<Rightarrow> json" where
  "or_default v d = (case v of None \<Rightarrow> d | Some x \<Rightarrow> if truthy (Some x) then x else d)"

text \<open>
  Strict equality \<^verbatim>\<open>===\<close>. Primitives are compared by type and value. Two arrays or two
  objects are equal only when they are the same reference, which never holds between a
  value parsed from one request and a value parsed from another, or a literal.
\<close>

fun strict_eq :: "json option \<Rightarrow> json option \<Rightarrow> bool" where
  "strict_eq None None = True"
| "strict_eq (Some JNull) (Some JNull) = True"
| "strict_eq (Some (JBool a)) (Some (JBool b)) = (a = b)"
| "strict_eq (Some (JNum a)) (Some (JNum b)) = (a = b)"
| "strict_eq (Some (JStr a)) (Some (JStr b)) = (a = b)"
| "strict_eq _ _ = False"

text \<open>
  Numbers: a comparison with a number literal converts the other operand with ToNumber.
  The conversion is written out for \<^verbatim>\<open>undefined\<close>, \<^verbatim>\<open>null\<close>, booleans and numbers;
  what the runtime computes for strings, arrays and objects (and what \<^verbatim>\<open>parseInt\<close>
  computes outside plain decimal notation) is a parameter of the model.
\<close>

datatype jsnum = NaN | Num rat

record js_runtime =
  ToNumber_other :: "json \<Rightarrow> jsnum"
  parseInt_other :: "json \<Rightarrow> jsnum"

fun ToNumber :: "js_runtime \<Rightarrow> json option \<Rightarrow> jsnum" where
  "ToNumber rt None = NaN"
| "ToNumber rt (Some JNull) = Num 0"
| "ToNumber rt (Some (JBool b)) = Num (if b then 1 else 0)"
| "ToNumber rt (Some (JNum r)) = Num r"
| "ToNumber rt (Some v) = ToNumber_other rt v"

definition js_lt :: "js_runtime \<Rightarrow> json option \<Rightarrow> rat \<Rightarrow> bool" where
  "js_lt rt v c = (case ToNumber rt v of NaN \<Rightarrow> False | Num r \<Rightarrow> r < c)"

definition js_gt :: "js_runtime \<Rightarrow> json option \<Rightarrow> rat \<Rightarrow> bool" where
  "js_gt rt v c = (case ToNumber rt v of NaN \<Rightarrow> False | Num r \<Rightarrow> r > c)"

text \<open>
  \<^verbatim>\<open>parseInt(v)\<close> reads the integer at the start of \<^verbatim>\<open>String(v)\<close>. A number whose
  magnitude is at least \<open>1 / 10 ^ 6\<close> and below \<open>10 ^ 21\<close> prints in plain decimal
  notation, so the result is the number truncated towards zero.
\<close>

definition parseInt :: "js_runtime \<Rightarrow> json \<Rightarrow> jsnum" where
  "parseInt rt v =
     (case v of
        JNum r \<Rightarrow>
          if r = 0 then Num 0
          else if 1 / 10 ^ 6 \<le> \<bar>r\<bar> \<and> \<bar>r\<bar> < 10 ^ 21
            then Num (if r < 0 then - of_int \<lfloor>- r\<rfloor> else of_int \<lfloor>r\<rfloor>)
          else parseInt_other rt v
      | _ \<Rightarrow> parseInt_other rt v)"

text \<open>The \<^verbatim>\<open>length\<close> property of a value that is neither \<^verbatim>\<open>undefined\<close> nor \<^verbatim>\<open>null\<close>.\<close>

fun js_length :: "json \<Rightarrow> json option" where
  "js_length (JArr xs) = Some (JNum (of_nat (length xs)))"
| "js_length (JStr s) = Some (JNum (of_nat (length s)))"
| "js_length (JObj kvs) = map_of kvs ''length''"
| "js_length _ = None"

subsection \<open>String methods\<close>

definition is_space :: "char \<Rightarrow> bool" where
  "is_space c = (c \<in> set [CHR '' '', CHR 0x09, CHR 0x0A, CHR 0x0B, CHR 0x0C, CHR 0x0D])"

definition trim :: "string \<Rightarrow> string" where
  "trim s = rev (dropWhile is_space (rev (dropWhile is_space s)))"

definition toLowerCase_char :: "char \<Rightarrow> char" where
  "toLowerCase_char c =
     (case map_of (zip ''ABCDEFGHIJKLMNOPQRSTUVWXYZ'' ''abcdefghijklmnopqrstuvwxyz'') c of
        Some l \<Rightarrow> l
      | None \<Rightarrow> c)"

definition toLowerCase :: "string \<Rightarrow> string" where
  "toLowerCase s = map toLowerCase_char s"

fun startsWith :: "string \<Rightarrow> string \<Rightarrow> bool" where
  "startsWith s [] = True"
| "startsWith [] (c # t) = False"
| "startsWith (a # s) (c # t) = (a = c \<and> startsWith s t)"

text \<open>\<^verbatim>\<open>s.includes(t)\<close>: \<open>t\<close> occurs in \<open>s\<close> as a contiguous run of characters.\<close>

fun str_includes :: "string \<Rightarrow> string \<Rightarrow> bool" where
  "str_includes [] t = (t = [])"
| "str_includes (a # s) t = (startsWith (a # s) t \<or> str_includes s t)"

text \<open>\<^verbatim>\<open>xs.join(sep)\<close> on an array of strings.\<close>

fun join :: "string \<Rightarrow> string list \<Rightarrow> string" where
  "join sep [] = []"
| "join sep [x] = x"
| "join sep (x # y # ys) = x @ sep @ join sep (y # ys)"

text \<open>
  A string method called on a value that is not a string throws a TypeError
  (\<^verbatim>\<open>x.trim is not a function\<close>); \<open>None\<close> stands for the throw.
\<close>

fun as_string :: "json option \<Rightarrow> string option" where
  "as_string (Some (JStr s)) = Some s"
| "as_string _ = None"

section \<open>HTTP responses\<close>

text \<open>
  A response is the status set by \<^verbatim>\<open>res.status\<close> (200 when the handler does not set one)
  and the value given to \<^verbatim>\<open>res.json\<close>: an object, written as its list of properties, or an
  array of records.
\<close>

datatype 'a reply = Fields payload | Items "'a list"

record 'a response =
  status :: nat
  json_body :: "'a reply"

definition succeeded :: "string \<Rightarrow> 'a response" where
  "succeeded msg =
     \<lparr>status = 200, json_body = Fields [(''success'', JBool True), (''message'', JStr msg)]\<rparr>"

definition failure :: "nat \<Rightarrow> string \<Rightarrow> 'a response" where
  "failure code msg =
     \<lparr>status = code, json_body = Fields [(''success'', JBool False), (''message'', JStr msg)]\<rparr>"

section \<open>The file-backed server\<close>

text \<open>
  The server of \<^verbatim>\<open>part_000\<close>, which keeps both collections in memory and rewrites a
  JSON file after each change. \<^verbatim>\<open>saveToFile\<close> catches its own errors, so it changes
  neither the response nor the lists in memory; the store of the model is the pair of
  lists, holding records of the shape the handlers create. The clock is read
  twice for a new record (\<^verbatim>\<open>Date.now()\<close> for the id, \<^verbatim>\<open>new Date()\<close> for the timestamp);
  both readings, in milliseconds, are inputs.
\<close>

record registration =
  reg_id :: int
  reg_firstName :: "json option"
  reg_lastName :: "json option"
  reg_email :: "json option"
  reg_phone :: "json option"
  reg_location :: "json option"
  reg_gender :: "json option"
  reg_channel :: "json option"
  reg_interests :: json
  reg_otherInterest :: json
  reg_consent :: json
  reg_timestamp :: int

record feedback =
  fb_id :: int
  fb_feedback1 :: string
  fb_feedback2 :: string
  fb_rating :: "jsnum option"
  fb_timestamp :: int

record store =
  registrations :: "registration list"
  feedbacks :: "feedback list"

subsection \<open>POST /api/register\<close>

definition required :: "string list" where
  "required =
     [''firstName'', ''lastName'', ''email'', ''phone'', ''location'', ''gender'', ''channel'']"

definition missing_fields :: "payload \<Rightarrow> string list" where
  "missing_fields req_body = filter (\<lambda>field. \<not> truthy (js_get req_body field)) required"

definition missing_message :: "payload \<Rightarrow> string" where
  "missing_message req_body = ''Missing required fields: '' @ join '', '' (missing_fields req_body)"

definition too_many_interests :: "js_runtime \<Rightarrow> payload \<Rightarrow> bool" where
  "too_many_interests rt req_body =
     (case js_get req_body ''interests'' of
        None \<Rightarrow> False
      | Some v \<Rightarrow> truthy (Some v) \<and> js_gt rt (js_length v) 2)"

definition new_registration :: "payload \<Rightarrow> int \<Rightarrow> int \<Rightarrow> registration" where
  "new_registration req_body now_id now_ts =
     \<lparr>reg_id = now_id,
      reg_firstName = js_get req_body ''firstName'',
      reg_lastName = js_get req_body ''lastName'',
      reg_email = js_get req_body ''email'',
      reg_phone = js_get req_body ''phone'',
      reg_location = js_get req_body ''location'',
      reg_gender = js_get req_body ''gender'',
      reg_channel = js_get req_body ''channel'',
      reg_interests = or_default (js_get req_body ''interests'') (JArr []),
      reg_otherInterest = or_default (js_get req_body ''otherInterest'') (JStr []),
      reg_consent = or_default (js_get req_body ''consent'') (JBool False),
      reg_timestamp = now_ts\<rparr>"

definition registered :: "json \<Rightarrow> 'a response" where
  "registered new_id =
     \<lparr>status = 200,
      json_body = Fields [(''success'', JBool True),
                          (''message'', JStr ''Registration successful''),
                          (''id'', new_id)]\<rparr>"

definition post_api_register_file ::
  "js_runtime \<Rightarrow> store \<Rightarrow> payload \<Rightarrow> int \<Rightarrow> int \<Rightarrow> registration response \<times> store" where
  "post_api_register_file rt st req_body now_id now_ts =
     (if length (missing_fields req_body) > 0 then
        (failure 400 (missing_message req_body), st)
      else if too_many_interests rt req_body then
        (failure 400 ''Maximum 2 areas of interest allowed'', st)
      else
        (case find (\<lambda>reg. strict_eq (reg_email reg) (js_get req_body ''email''))
                (registrations st) of
           Some existingRegistration \<Rightarrow> (failure 400 ''Email already registered'', st)
         | None \<Rightarrow>
             (let registration = new_registration req_body now_id now_ts
              in (registered (JNum (of_int (reg_id registration))),
                  st\<lparr>registrations := registrations st @ [registration]\<rparr>))))"

subsection \<open>POST /api/feedback\<close>

text \<open>
  The new record is built field by field; \<^verbatim>\<open>feedback1.trim()\<close> throws when a truthy
  \<^verbatim>\<open>feedback1\<close> is not a string, and the \<^verbatim>\<open>catch\<close> block answers 500 before anything is
  stored.
\<close>

definition trimmed_or_empty :: "json option \<Rightarrow> string option" where
  "trimmed_or_empty v = (if truthy v then map_option trim (as_string v) else Some [])"

definition parsed_rating :: "js_runtime \<Rightarrow> json option \<Rightarrow> jsnum option" where
  "parsed_rating rt rating =
     (case rating of
        None \<Rightarrow> None
      | Some v \<Rightarrow> if truthy (Some v) then Some (parseInt rt v) else None)"

definition rating_rejected :: "js_runtime \<Rightarrow> json option \<Rightarrow> bool" where
  "rating_rejected rt rating = (truthy rating \<and> (js_lt rt rating 1 \<or> js_gt rt rating 5))"

definition post_api_feedback_file ::
  "js_runtime \<Rightarrow> store \<Rightarrow> payload \<Rightarrow> int \<Rightarrow> int \<Rightarrow> feedback response \<times> store" where
  "post_api_feedback_file rt st req_body now_id now_ts =
     (let feedback1 = js_get req_body ''feedback1'';
          feedback2 = js_get req_body ''feedback2'';
          rating = js_get req_body ''rating''
      in if \<not> truthy feedback1 \<and> \<not> truthy feedback2 then
           (failure 400 ''At least one feedback field is required'', st)
         else if rating_rejected rt rating then
           (failure 400 ''Rating must be between 1 and 5'', st)
         else
           (case trimmed_or_empty feedback1 of
              None \<Rightarrow> (failure 500 ''Server error during feedback submission'', st)
            | Some f1 \<Rightarrow>
                (case trimmed_or_empty feedback2 of
                   None \<Rightarrow> (failure 500 ''Server error during feedback submission'', st)
                 | Some f2 \<Rightarrow>
                     (let feedback = \<lparr>fb_id = now_id, fb_feedback1 = f1, fb_feedback2 = f2,
                                      fb_rating = parsed_rating rt rating,
                                      fb_timestamp = now_ts\<rparr>
                      in (succeeded ''Feedback submitted successfully'',
                          st\<lparr>feedbacks := feedbacks st @ [feedback]\<rparr>)))))"

subsection \<open>GET /api/admin/registrations\<close>





definition newest_first :: "('a \<Rightarrow> int) \<Rightarrow> 'a list \<Rightarrow> 'a list" where
  "newest_first stamp xs = sort_key (\<lambda>x. - stamp x) xs"


subsection \<open>GET /api/admin/feedbacks\<close>

text \<open>
  Each element is the stored record (\<^verbatim>\<open>...feedback\<close>) extended with \<^verbatim>\<open>name\<close> and
  \<^verbatim>\<open>text\<close>; the record extension keeps the five stored fields.
\<close>

record feedback_view = feedback +
  view_name :: string
  view_text :: string

definition display_text :: "feedback \<Rightarrow> string" where
  "display_text fb =
     join '' | '' (filter (\<lambda>text. text \<noteq> [] \<and> trim text \<noteq> [])
                    [fb_feedback1 fb, fb_feedback2 fb])"

definition format_feedback :: "feedback \<Rightarrow> feedback_view" where
  "format_feedback fb =
     \<lparr>fb_id = fb_id fb, fb_feedback1 = fb_feedback1 fb, fb_feedback2 = fb_feedback2 fb,
      fb_rating = fb_rating fb, fb_timestamp = fb_timestamp fb,
      view_name = ''Anonymous User'', view_text = display_text fb\<rparr>"

definition get_api_admin_feedbacks_file :: "store \<Rightarrow> feedback_view response" where
  "get_api_admin_feedbacks_file st =
     \<lparr>status = 200,
      json_body = Items (map format_feedback (newest_first fb_timestamp (feedbacks st)))\<rparr>"

subsection \<open>POST /api/admin/login\<close>

definition credentials_ok :: "payload \<Rightarrow> bool" where
  "credentials_ok req_body =
     (strict_eq (js_get req_body ''username'') (Some (JStr ''admin@mtn.ng''))
      \<and> strict_eq (js_get req_body ''password'') (Some (JStr ''1234'')))"

text \<open>The file-backed server and the database server answer a login alike.\<close>

definition post_api_admin_login :: "payload \<Rightarrow> 'a response" where
  "post_api_admin_login req_body =
     (if credentials_ok req_body then
        \<lparr>status = 200,
         json_body = Fields [(''success'', JBool True),
                             (''message'', JStr ''Login successful''),
                             (''token'', JStr ''demo-token'')]\<rparr>
      else failure 401 ''Invalid credentials'')"

section \<open>The database server\<close>

text \<open>
  The server of \<^verbatim>\<open>server.js\<close>, which stores documents through mongoose. The documents
  have the shape the two schemas of the server declare. What the library does is a
  parameter of the model:
  how a payload is cast and validated against a schema into a document (with its defaults
  and its generated \<^verbatim>\<open>_id\<close>), how \<^verbatim>\<open>findOne\<close> answers, and what a regular expression
  matches. \<open>Inl\<close> carries the message of the error a call throws. A call on a database
  that cannot be reached throws. Of the lines the handlers write to the console, the
  model keeps the warning about an email that is already registered.
\<close>

record reg_doc =
  doc_id :: string
  doc_firstName :: string
  doc_lastName :: string
  doc_email :: string
  doc_phone :: "string option"
  doc_location :: "string option"
  doc_gender :: "string option"
  doc_channel :: "string option"
  doc_interests :: "string list"
  doc_otherInterest :: "string option"
  doc_consent :: "bool option"
  doc_timestamp :: int

record fb_doc =
  fdoc_id :: string
  fdoc_feedback1 :: "string option"
  fdoc_feedback2 :: "string option"
  fdoc_rating :: "rat option"
  fdoc_timestamp :: int

record mongo =
  Registration :: "reg_doc list"
  Feedback :: "fb_doc list"
  reachable :: bool

record mongoose =
  cast_Registration :: "payload \<Rightarrow> string + reg_doc"
  cast_Feedback :: "json option \<Rightarrow> json option \<Rightarrow> jsnum option \<Rightarrow> string + fb_doc"
  findOne_email :: "reg_doc list \<Rightarrow> json option \<Rightarrow> string + reg_doc option"
  new_RegExp :: "string \<Rightarrow> (string \<Rightarrow> bool) option"

definition unreachable :: string where
  "unreachable = ''database unreachable''"

definition Registration_findOne ::
  "mongoose \<Rightarrow> mongo \<Rightarrow> json option \<Rightarrow> string + reg_doc option" where
  "Registration_findOne lib db email =
     (if reachable db then findOne_email lib (Registration db) email else Inl unreachable)"

definition Registration_create ::
  "mongoose \<Rightarrow> mongo \<Rightarrow> payload \<Rightarrow> string + reg_doc \<times> mongo" where
  "Registration_create lib db req_body =
     (case cast_Registration lib req_body of
        Inl err \<Rightarrow> Inl err
      | Inr doc \<Rightarrow>
          if reachable db then Inr (doc, db\<lparr>Registration := Registration db @ [doc]\<rparr>)
          else Inl unreachable)"

definition Feedback_create ::
  "mongoose \<Rightarrow> mongo \<Rightarrow> json option \<Rightarrow> json option \<Rightarrow> jsnum option \<Rightarrow> string + fb_doc \<times> mongo" where
  "Feedback_create lib db feedback1 feedback2 rating =
     (case cast_Feedback lib feedback1 feedback2 rating of
        Inl err \<Rightarrow> Inl err
      | Inr doc \<Rightarrow>
          if reachable db then Inr (doc, db\<lparr>Feedback := Feedback db @ [doc]\<rparr>)
          else Inl unreachable)"

text \<open>
  \<^verbatim>\<open>find(filter).sort({timestamp: -1}).limit(n)\<close>: the matching documents, newest first, cut
  after \<open>n\<close>. (The order the database gives to documents of equal timestamp is not
  specified; the model keeps their insertion order.)
\<close>

definition find_sorted ::
  "bool \<Rightarrow> ('d \<Rightarrow> int) \<Rightarrow> nat \<Rightarrow> ('d \<Rightarrow> bool) \<Rightarrow> 'd list \<Rightarrow> string + 'd list" where
  "find_sorted up stamp n matching docs =
     (if up then Inr (take n (newest_first stamp (filter matching docs))) else Inl unreachable)"

subsection \<open>POST /api/register\<close>

datatype log_entry = Email_already_registered "json option"

definition post_api_register_mongo ::
  "js_runtime \<Rightarrow> mongoose \<Rightarrow> mongo \<Rightarrow> payload \<Rightarrow> (reg_doc response \<times> mongo) \<times> log_entry list" where
  "post_api_register_mongo rt lib db req_body =
     (if length (missing_fields req_body) > 0 then
        ((failure 400 (missing_message req_body), db), [])
      else if too_many_interests rt req_body then
        ((failure 400 ''Maximum 2 interests allowed'', db), [])
      else
        (case Registration_findOne lib db (js_get req_body ''email'') of
           Inl err \<Rightarrow> ((failure 500 (''Server error during registration: '' @ err), db), [])
         | Inr existingUser \<Rightarrow>
             (let warned = (case existingUser of
                              None \<Rightarrow> []
                            | Some u \<Rightarrow> [Email_already_registered (js_get req_body ''email'')])
              in case Registration_create lib db req_body of
                   Inl err \<Rightarrow>
                     ((failure 500 (''Server error during registration: '' @ err), db), warned)
                 | Inr (registration, db') \<Rightarrow>
                     ((registered (JStr (doc_id registration)), db'), warned))))"

subsection \<open>POST /api/feedback\<close>

definition post_api_feedback_mongo ::
  "js_runtime \<Rightarrow> mongoose \<Rightarrow> mongo \<Rightarrow> payload \<Rightarrow> fb_doc response \<times> mongo" where
  "post_api_feedback_mongo rt lib db req_body =
     (let feedback1 = js_get req_body ''feedback1'';
          feedback2 = js_get req_body ''feedback2'';
          rating = js_get req_body ''rating''
      in if \<not> truthy feedback1 \<and> \<not> truthy feedback2 then
           (failure 400 ''At least one feedback field required'', db)
         else if rating_rejected rt rating then
           (failure 400 ''Rating must be between 1 and 5'', db)
         else
           (case Feedback_create lib db feedback1 feedback2 (parsed_rating rt rating) of
              Inl err \<Rightarrow>
                (failure 500 (''Server error during feedback submission: '' @ err), db)
            | Inr (feedback, db') \<Rightarrow> (succeeded ''Feedback submitted successfully'', db')))"

subsection \<open>GET /api/admin/registrations\<close>

definition regex_filter :: "(string \<Rightarrow> bool) \<Rightarrow> reg_doc \<Rightarrow> bool" where
  "regex_filter regex doc =
     (regex (doc_firstName doc) \<or> regex (doc_lastName doc) \<or> regex (doc_email doc)
      \<or> (case doc_location doc of None \<Rightarrow> False | Some l \<Rightarrow> regex l))"

definition registrations_query :: "mongoose \<Rightarrow> string option \<Rightarrow> (reg_doc \<Rightarrow> bool) option" where
  "registrations_query lib search =
     (case search of
        None \<Rightarrow> Some (\<lambda>doc. True)
      | Some s \<Rightarrow>
          if s = [] then Some (\<lambda>doc. True)
          else map_option regex_filter (new_RegExp lib s))"

definition get_api_admin_registrations_mongo ::
  "mongoose \<Rightarrow> mongo \<Rightarrow> string option \<Rightarrow> reg_doc response" where
  "get_api_admin_registrations_mongo lib db search =
     (case registrations_query lib search of
        None \<Rightarrow> \<lparr>status = 500, json_body = Items []\<rparr>
      | Some matching \<Rightarrow>
          (case find_sorted (reachable db) doc_timestamp 200 matching (Registration db) of
             Inl err \<Rightarrow> \<lparr>status = 500, json_body = Items []\<rparr>
           | Inr results \<Rightarrow> \<lparr>status = 200, json_body = Items results\<rparr>))"

subsection \<open>GET /api/admin/feedbacks\<close>

record formatted_feedback =
  fmt_name :: string
  fmt_text :: string
  fmt_rating :: "rat option"
  fmt_timestamp :: int
  fmt_id :: string

definition first_text :: "string option \<Rightarrow> string option \<Rightarrow> string" where
  "first_text feedback1 feedback2 =
     (case feedback1 of
        Some s1 \<Rightarrow> if s1 \<noteq> [] then s1
                   else (case feedback2 of
                           Some s2 \<Rightarrow> if s2 \<noteq> [] then s2 else ''No feedback text''
                         | None \<Rightarrow> ''No feedback text'')
      | None \<Rightarrow> (case feedback2 of
                   Some s2 \<Rightarrow> if s2 \<noteq> [] then s2 else ''No feedback text''
                 | None \<Rightarrow> ''No feedback text''))"

definition format_fb_doc :: "fb_doc \<Rightarrow> formatted_feedback" where
  "format_fb_doc fb =
     \<lparr>fmt_name = ''Customer Feedback'',
      fmt_text = first_text (fdoc_feedback1 fb) (fdoc_feedback2 fb),
      fmt_rating = fdoc_rating fb,
      fmt_timestamp = fdoc_timestamp fb,
      fmt_id = fdoc_id fb\<rparr>"

definition get_api_admin_feedbacks_mongo :: "mongo \<Rightarrow> formatted_feedback response" where
  "get_api_admin_feedbacks_mongo db =
     (case find_sorted (reachable db) fdoc_timestamp 100 (\<lambda>doc. True) (Feedback db) of
        Inl err \<Rightarrow> \<lparr>status = 500, json_body = Items []\<rparr>
      | Inr found \<Rightarrow> \<lparr>status = 200, json_body = Items (map format_fb_doc found)\<rparr>)"

section \<open>The routers\<close>

text \<open>
  The routers of \<^verbatim>\<open>routes/registration.js\<close> and \<^verbatim>\<open>routes/feedback.js\<close> use the models
  \<^verbatim>\<open>../models/Registration\<close> and \<^verbatim>\<open>../models/Feedback\<close>, whose schemas are not part of the sources at hand. A document
  is therefore modelled as the object its properties form, with the \<^verbatim>\<open>createdAt\<close> instant
  the routers sort by; saving a document and matching a \<^verbatim>\<open>$regex\<close> are parameters.
\<close>

record router_doc =
  properties :: payload
  createdAt :: int

subsection \<open>POST / of the registration router\<close>

fun set_property :: "string \<Rightarrow> json \<Rightarrow> payload \<Rightarrow> payload" where
  "set_property k v [] = [(k, v)]"
| "set_property k v ((k', v') # kvs) =
     (if k' = k then (k, v) # kvs else (k', v') # set_property k v kvs)"

definition consent_flag :: "payload \<Rightarrow> bool" where
  "consent_flag req_body =
     (strict_eq (js_get req_body ''consent'') (Some (JBool True))
      \<or> strict_eq (js_get req_body ''consent'') (Some (JStr ''true'')))"

definition registrationData :: "payload \<Rightarrow> payload" where
  "registrationData req_body = set_property ''consent'' (JBool (consent_flag req_body)) req_body"

definition post_registration_router :: "(payload \<Rightarrow> string + json) \<Rightarrow> payload \<Rightarrow> 'a response" where
  "post_registration_router save req_body =
     (case save (registrationData req_body) of
        Inl msg \<Rightarrow> failure 400 msg
      | Inr new_id \<Rightarrow>
          \<lparr>status = 201,
           json_body = Fields [(''success'', JBool True),
                               (''message'', JStr ''Registration successful''),
                               (''id'', new_id)]\<rparr>)"

subsection \<open>The admin router\<close>

definition post_login_router :: "payload \<Rightarrow> 'a response" where
  "post_login_router req_body =
     (if credentials_ok req_body then
        succeeded ''Login successful''
      else failure 401 ''Invalid credentials'')"



record customer_feedback =
  cf_name :: string
  cf_text :: json
  cf_rating :: "json option"
  cf_timestamp :: int

definition format_router_doc :: "router_doc \<Rightarrow> customer_feedback" where
  "format_router_doc f =
     \<lparr>cf_name = ''Customer'',
      cf_text = or_default (js_get (properties f) ''feedback1'')
                  (or_default (js_get (properties f) ''feedback2'') (JStr ''No feedback text'')),
      cf_rating = js_get (properties f) ''rating'',
      cf_timestamp = createdAt f\<rparr>"

definition get_feedbacks_router :: "bool \<Rightarrow> router_doc list \<Rightarrow> customer_feedback response" where
  "get_feedbacks_router up docs =
     (case find_sorted up createdAt 100 (\<lambda>doc. True) docs of
        Inl err \<Rightarrow> \<lparr>status = 500, json_body = Fields [(''error'', JStr err)]\<rparr>
      | Inr found \<Rightarrow> \<lparr>status = 200, json_body = Items (map format_router_doc found)\<rparr>)"

section \<open>The properties as the specification words them\<close>

text \<open>
  A mandatory field is missing when it is absent (\<^verbatim>\<open>undefined\<close> or \<^verbatim>\<open>null\<close>) or the empty
  string. A payload is textual when every mandatory field that is there holds a string,
  as the registration form sends it.
\<close>

definition absent_or_empty :: "json option \<Rightarrow> bool" where
  "absent_or_empty v = (v = None \<or> v = Some JNull \<or> v = Some (JStr []))"

fun is_text :: "json option \<Rightarrow> bool" where
  "is_text None = True"
| "is_text (Some JNull) = True"
| "is_text (Some (JStr s)) = True"
| "is_text (Some v) = False"







text \<open>The token a login response carries, if any.\<close>

definition token_of :: "'a response \<Rightarrow> json option" where
  "token_of res = (case json_body res of Fields kvs \<Rightarrow> js_get kvs ''token'' | Items xs \<Rightarrow> None)"

section \<open>Concrete inputs\<close>

text \<open>
  A runtime and a library instance for evaluating the handlers on concrete requests. The
  requests below hold strings and numbers only, for which the handlers never consult the
  runtime's remaining conversions; the library instance casts a textual registration as
  the schema of the database server declares (trimmed names, trimmed lower-cased email),
  and its regular expressions are the patterns without metacharacters: a pattern matches
  where it occurs, whatever the case.
\<close>

definition plain_runtime :: js_runtime where
  "plain_runtime = \<lparr>ToNumber_other = (\<lambda>v. NaN), parseInt_other = (\<lambda>v. NaN)\<rparr>"

definition ada :: payload where
  "ada = [(''firstName'', JStr ''Ada''), (''lastName'', JStr ''Lovelace''),
          (''email'', JStr ''ada@example.com''), (''phone'', JStr ''0800''),
          (''location'', JStr ''Lagos''), (''gender'', JStr ''F''),
          (''channel'', JStr ''web'')]"

definition ada_doc :: "string \<Rightarrow> int \<Rightarrow> reg_doc" where
  "ada_doc new_id now =
     \<lparr>doc_id = new_id, doc_firstName = ''Ada'', doc_lastName = ''Lovelace'',
      doc_email = ''ada@example.com'', doc_phone = Some ''0800'', doc_location = Some ''Lagos'',
      doc_gender = Some ''F'', doc_channel = Some ''web'', doc_interests = [],
      doc_otherInterest = None, doc_consent = Some False, doc_timestamp = now\<rparr>"

definition text_field :: "payload \<Rightarrow> string \<Rightarrow> string option" where
  "text_field req_body k = as_string (js_get req_body k)"

definition sample_lib :: "string \<Rightarrow> int \<Rightarrow> mongoose" where
  "sample_lib new_id now =
     \<lparr>cast_Registration =
        (\<lambda>req_body.
           case (text_field req_body ''firstName'', text_field req_body ''lastName'',
                 text_field req_body ''email'') of
             (Some f, Some l, Some e) \<Rightarrow>
               Inr \<lparr>doc_id = new_id, doc_firstName = trim f, doc_lastName = trim l,
                    doc_email = toLowerCase (trim e),
                    doc_phone = text_field req_body ''phone'',
                    doc_location = text_field req_body ''location'',
                    doc_gender = text_field req_body ''gender'',
                    doc_channel = text_field req_body ''channel'',
                    doc_interests = [], doc_otherInterest = None,
                    doc_consent = Some False, doc_timestamp = now\<rparr>
           | _ \<Rightarrow> Inl ''Registration validation failed''),
      cast_Feedback =
        (\<lambda>feedback1 feedback2 rating.
           Inr \<lparr>fdoc_id = new_id, fdoc_feedback1 = as_string feedback1,
                fdoc_feedback2 = as_string feedback2,
                fdoc_rating = (case rating of Some (Num r) \<Rightarrow> Some r | _ \<Rightarrow> None),
                fdoc_timestamp = now\<rparr>),
      findOne_email =
        (\<lambda>docs email. Inr (find (\<lambda>doc. Some (doc_email doc) = map_option (toLowerCase \<circ> trim) (as_string email)) docs)),
      new_RegExp = (\<lambda>pattern. Some (\<lambda>s. str_includes (toLowerCase s) (toLowerCase pattern)))\<rparr>"


definition empty_store :: store where
  "empty_store = \<lparr>registrations = [], feedbacks = []\<rparr>"

definition ada_db :: mongo where
  "ada_db = \<lparr>Registration = [ada_doc ''65a1'' 1001], Feedback = [], reachable = True\<rparr>"

definition ada_store :: store where
  "ada_store = \<lparr>registrations = [new_registration ada 1000 1001], feedbacks = []\<rparr>"





definition two_answers :: fb_doc where
  "two_answers =
     \<lparr>fdoc_id = ''65b1'', fdoc_feedback1 = Some ''Great event'',
      fdoc_feedback2 = Some ''More seats please'', fdoc_rating = Some 5, fdoc_timestamp = 3001\<rparr>"

section \<open>Facts about the operators\<close>






lemma mset_newest_first: "mset (newest_first stamp xs) = mset xs"
  by (simp add: newest_first_def)


lemma missing_fields_iff:
  "f \<in> set (missing_fields req_body) \<longleftrightarrow> f \<in> set required \<and> \<not> truthy (js_get req_body f)"
  by (auto simp: missing_fields_def)

lemma absent_or_empty_falsy: "absent_or_empty v \<Longrightarrow> \<not> truthy v"
  by (auto simp: absent_or_empty_def)

lemma is_text_falsy: "is_text v \<Longrightarrow> \<not> truthy v \<longleftrightarrow> absent_or_empty v"
  by (cases v rule: is_text.cases) (auto simp: absent_or_empty_def)

lemma length_newest_first: "length (newest_first stamp xs) = length xs"
  by (simp add: newest_first_def)








section \<open>What the sibling handlers do\<close>

text \<open>
  Both servers reject a feedback whose two fields are falsy; the file-backed server lists
  a feedback with a fixed name, the joined non-blank texts and all stored fields; the
  registration router hands a boolean consent to its model; the two servers answer a
  login with a token exactly for the fixed credentials, and every handler answers 401
  without a token otherwise.
\<close>

lemma empty_feedback_rejected:
  assumes "\<not> truthy (js_get req_body ''feedback1'')" and "\<not> truthy (js_get req_body ''feedback2'')"
  shows "post_api_feedback_file rt st req_body now_id now_ts =
           (failure 400 ''At least one feedback field is required'', st)"
    and "post_api_feedback_mongo rt lib db req_body =
           (failure 400 ''At least one feedback field required'', db)"
  using assms by (simp_all add: post_api_feedback_file_def post_api_feedback_mongo_def)

lemma file_feedback_view:
  "view_name (format_feedback fb) = ''Anonymous User''"
  "view_text (format_feedback fb) =
     join '' | '' (filter (\<lambda>text. text \<noteq> [] \<and> trim text \<noteq> []) [fb_feedback1 fb, fb_feedback2 fb])"
  "fb_feedback1 (format_feedback fb) = fb_feedback1 fb"
  "fb_feedback2 (format_feedback fb) = fb_feedback2 fb"
  "feedback.truncate (format_feedback fb) = fb"
  by (simp_all add: format_feedback_def display_text_def feedback.truncate_def)

lemma router_consent_boolean:
  "js_get (registrationData req_body) ''consent'' = Some (JBool (consent_flag req_body))"
proof -
  have "map_of (set_property k v kvs) k = Some v" for k v and kvs :: payload
    by (induction kvs) auto
  then show ?thesis by (simp add: registrationData_def js_get_def)
qed

lemma server_login:
  "credentials_ok req_body \<longleftrightarrow>
     js_get req_body ''username'' = Some (JStr ''admin@mtn.ng'')
     \<and> js_get req_body ''password'' = Some (JStr ''1234'')"
  "credentials_ok req_body \<Longrightarrow>
     status (post_api_admin_login req_body) = 200
     \<and> token_of (post_api_admin_login req_body) = Some (JStr ''demo-token'')"
  "\<not> credentials_ok req_body \<Longrightarrow>
     status (post_api_admin_login req_body) = 401 \<and> token_of (post_api_admin_login req_body) = None"
  "\<not> credentials_ok req_body \<Longrightarrow>
     status (post_login_router req_body) = 401 \<and> token_of (post_login_router req_body) = None"
proof -
  have eq: "strict_eq v (Some (JStr s)) \<longleftrightarrow> v = Some (JStr s)" for v s
    by (cases "(v, Some (JStr s))" rule: strict_eq.cases) auto
  show "credentials_ok req_body \<longleftrightarrow>
     js_get req_body ''username'' = Some (JStr ''admin@mtn.ng'')
     \<and> js_get req_body ''password'' = Some (JStr ''1234'')"
    by (simp add: credentials_ok_def eq)
qed (simp_all add: post_api_admin_login_def post_login_router_def token_of_def js_get_def failure_def)

section \<open>The claims\<close>

text \<open>
  C2. A registration payload in which one of the seven mandatory fields is absent or empty
  is answered 400 with the message \<^verbatim>\<open>Missing required fields: \<close> followed by the names of
  the missing fields, joined by a comma and a space, and nothing is stored: by the
  file-backed server and by the database server alike. The fields named are the mandatory
  fields whose value is falsy, in the order of the list of mandatory fields; for a textual
  payload these are exactly the fields that are absent or empty.
\<close>

theorem missing_fields_rejected:
  assumes "field \<in> set required" and "absent_or_empty (js_get req_body field)"
  shows "post_api_register_file rt st req_body now_id now_ts =
           (\<lparr>status = 400,
             json_body = Fields [(''success'', JBool False),
                                 (''message'', JStr (missing_message req_body))]\<rparr>, st)
       \<and> post_api_register_mongo rt lib db req_body =
           ((\<lparr>status = 400,
              json_body = Fields [(''success'', JBool False),
                                  (''message'', JStr (missing_message req_body))]\<rparr>, db), [])
       \<and> missing_message req_body =
           ''Missing required fields: '' @ join '', '' (missing_fields req_body)
       \<and> field \<in> set (missing_fields req_body)
       \<and> (\<forall>f. f \<in> set (missing_fields req_body)
                \<longleftrightarrow> f \<in> set required \<and> \<not> truthy (js_get req_body f))
       \<and> ((\<forall>f \<in> set required. is_text (js_get req_body f)) \<longrightarrow>
            (\<forall>f. f \<in> set (missing_fields req_body)
                \<longleftrightarrow> f \<in> set required \<and> absent_or_empty (js_get req_body f)))"
proof -
  from assms have mem: "field \<in> set (missing_fields req_body)"
    by (simp add: missing_fields_iff absent_or_empty_falsy)
  then have pos: "length (missing_fields req_body) > 0"
    by (cases "missing_fields req_body") auto
  have on_file: "post_api_register_file rt st req_body now_id now_ts =
      (failure 400 (missing_message req_body), st)"
    using pos by (simp add: post_api_register_file_def)
  have on_mongo: "post_api_register_mongo rt lib db req_body =
      ((failure 400 (missing_message req_body), db), [])"
    using pos by (simp add: post_api_register_mongo_def)
  have textual: "(\<forall>f \<in> set required. is_text (js_get req_body f)) \<longrightarrow>
            (\<forall>f. f \<in> set (missing_fields req_body)
                \<longleftrightarrow> f \<in> set required \<and> absent_or_empty (js_get req_body f))"
    using is_text_falsy by (auto simp: missing_fields_iff)
  show ?thesis
    using mem on_file on_mongo textual
    by (simp add: failure_def missing_message_def missing_fields_iff)
qed

theorem missing_fields_rejected_witness:
  "''email'' \<in> set required
   \<and> absent_or_empty (js_get [(''firstName'', JStr ''Ada''), (''email'', JStr [])] ''email'')
   \<and> list_all (\<lambda>f. is_text (js_get [(''firstName'', JStr ''Ada''), (''email'', JStr [])] f)) required
   \<and> post_api_register_file plain_runtime empty_store
        [(''firstName'', JStr ''Ada''), (''email'', JStr [])] 1000 1001 =
       (\<lparr>status = 400,
         json_body = Fields [(''success'', JBool False),
           (''message'', JStr ''Missing required fields: lastName, email, phone, location, gender, channel'')]\<rparr>,
        empty_store)"
  using missing_fields_rejected [of "''email''" "[(''firstName'', JStr ''Ada''), (''email'', JStr [])]"
      plain_runtime empty_store 1000 1001]
  by (simp add: required_def absent_or_empty_def js_get_def missing_message_def missing_fields_def)

text \<open>
  C10. A registration that is answered 200 appends exactly one record to the registrations
  and leaves the feedbacks as they were; a feedback that is answered 200 appends exactly
  one record to the feedbacks and leaves the registrations as they were. This holds for
  the file-backed server and for the database server.
\<close>

theorem submissions_frame:
  "(status (fst (post_api_register_file rt st req_body now_id now_ts)) = 200 \<longrightarrow>
      registrations (snd (post_api_register_file rt st req_body now_id now_ts)) =
        registrations st @ [new_registration req_body now_id now_ts]
      \<and> feedbacks (snd (post_api_register_file rt st req_body now_id now_ts)) = feedbacks st)
   \<and> (status (fst (post_api_feedback_file rt st req_body now_id now_ts)) = 200 \<longrightarrow>
      (\<exists>fb. feedbacks (snd (post_api_feedback_file rt st req_body now_id now_ts)) =
              feedbacks st @ [fb])
      \<and> registrations (snd (post_api_feedback_file rt st req_body now_id now_ts)) =
          registrations st)
   \<and> (status (fst (fst (post_api_register_mongo rt lib db req_body))) = 200 \<longrightarrow>
      (\<exists>doc. Registration (snd (fst (post_api_register_mongo rt lib db req_body))) =
              Registration db @ [doc])
      \<and> Feedback (snd (fst (post_api_register_mongo rt lib db req_body))) = Feedback db)
   \<and> (status (fst (post_api_feedback_mongo rt lib db req_body)) = 200 \<longrightarrow>
      (\<exists>doc. Feedback (snd (post_api_feedback_mongo rt lib db req_body)) =
              Feedback db @ [doc])
      \<and> Registration (snd (post_api_feedback_mongo rt lib db req_body)) = Registration db)"
proof -
  have a: "status (fst (post_api_register_file rt st req_body now_id now_ts)) = 200 \<longrightarrow>
      registrations (snd (post_api_register_file rt st req_body now_id now_ts)) =
        registrations st @ [new_registration req_body now_id now_ts]
      \<and> feedbacks (snd (post_api_register_file rt st req_body now_id now_ts)) = feedbacks st"
    by (simp add: post_api_register_file_def failure_def registered_def Let_def split: option.splits)
  have b: "status (fst (post_api_feedback_file rt st req_body now_id now_ts)) = 200 \<longrightarrow>
      (\<exists>fb. feedbacks (snd (post_api_feedback_file rt st req_body now_id now_ts)) =
              feedbacks st @ [fb])
      \<and> registrations (snd (post_api_feedback_file rt st req_body now_id now_ts)) =
          registrations st"
    by (simp add: post_api_feedback_file_def failure_def succeeded_def Let_def split: option.splits)
  have c: "status (fst (fst (post_api_register_mongo rt lib db req_body))) = 200 \<longrightarrow>
      (\<exists>doc. Registration (snd (fst (post_api_register_mongo rt lib db req_body))) =
              Registration db @ [doc])
      \<and> Feedback (snd (fst (post_api_register_mongo rt lib db req_body))) = Feedback db"
    by (auto simp: post_api_register_mongo_def failure_def registered_def Let_def
          Registration_create_def split: option.splits sum.splits if_splits)
  have d: "status (fst (post_api_feedback_mongo rt lib db req_body)) = 200 \<longrightarrow>
      (\<exists>doc. Feedback (snd (post_api_feedback_mongo rt lib db req_body)) =
              Feedback db @ [doc])
      \<and> Registration (snd (post_api_feedback_mongo rt lib db req_body)) = Registration db"
    by (auto simp: post_api_feedback_mongo_def failure_def succeeded_def Let_def
          Feedback_create_def split: option.splits sum.splits if_splits)
  from a b c d show ?thesis by blast
qed

theorem submissions_frame_witness:
  "status (fst (post_api_register_file plain_runtime empty_store ada 1000 1001)) = 200
   \<and> registrations (snd (post_api_register_file plain_runtime empty_store ada 1000 1001)) =
       [new_registration ada 1000 1001]
   \<and> feedbacks (snd (post_api_register_file plain_runtime empty_store ada 1000 1001)) = []
   \<and> status (fst (post_api_feedback_file plain_runtime ada_store
         [(''feedback1'', JStr ''Great event''), (''rating'', JNum 5)] 3000 3001)) = 200
   \<and> registrations (snd (post_api_feedback_file plain_runtime ada_store
         [(''feedback1'', JStr ''Great event''), (''rating'', JNum 5)] 3000 3001)) =
       registrations ada_store
   \<and> status (fst (fst (post_api_register_mongo plain_runtime (sample_lib ''65a2'' 2001) ada_db ada))) = 200
   \<and> Feedback (snd (fst (post_api_register_mongo plain_runtime (sample_lib ''65a2'' 2001) ada_db ada))) =
       Feedback ada_db
   \<and> status (fst (post_api_feedback_mongo plain_runtime (sample_lib ''65b1'' 3001) ada_db
         [(''feedback1'', JStr ''Great event''), (''rating'', JNum 5)])) = 200
   \<and> Registration (snd (post_api_feedback_mongo plain_runtime (sample_lib ''65b1'' 3001) ada_db
         [(''feedback1'', JStr ''Great event''), (''rating'', JNum 5)])) = Registration ada_db"
proof -
  let ?fb = "[(''feedback1'', JStr ''Great event''), (''rating'', JNum 5)]"
  have a: "status (fst (post_api_register_file plain_runtime empty_store ada 1000 1001)) = 200"
    by (simp add: post_api_register_file_def missing_fields_def required_def ada_def js_get_def
          too_many_interests_def empty_store_def registered_def Let_def)
  have b: "status (fst (post_api_feedback_file plain_runtime ada_store ?fb 3000 3001)) = 200"
    by (simp add: post_api_feedback_file_def js_get_def rating_rejected_def js_lt_def js_gt_def
          trimmed_or_empty_def succeeded_def)
  have c: "status (fst (fst (post_api_register_mongo plain_runtime (sample_lib ''65a2'' 2001) ada_db ada))) = 200"
    by (simp add: post_api_register_mongo_def missing_fields_def required_def ada_def js_get_def
          too_many_interests_def Registration_findOne_def Registration_create_def ada_db_def
          sample_lib_def text_field_def registered_def)
  have d: "status (fst (post_api_feedback_mongo plain_runtime (sample_lib ''65b1'' 3001) ada_db ?fb)) = 200"
    by (simp add: post_api_feedback_mongo_def js_get_def rating_rejected_def js_lt_def js_gt_def
          Feedback_create_def ada_db_def sample_lib_def succeeded_def)
  have e: "registrations empty_store = []" "feedbacks empty_store = []"
    by (simp_all add: empty_store_def)
  have r1: "registrations (snd (post_api_register_file plain_runtime empty_store ada 1000 1001)) =
        registrations empty_store @ [new_registration ada 1000 1001]
      \<and> feedbacks (snd (post_api_register_file plain_runtime empty_store ada 1000 1001)) =
        feedbacks empty_store"
    using a submissions_frame [where rt = plain_runtime and st = empty_store and req_body = ada
        and now_id = 1000 and now_ts = 1001 and lib = "sample_lib ''65a2'' 2001" and db = ada_db]
    by blast
  have r2: "registrations (snd (post_api_feedback_file plain_runtime ada_store ?fb 3000 3001)) =
        registrations ada_store"
    using b submissions_frame [where rt = plain_runtime and st = ada_store and req_body = ?fb
        and now_id = 3000 and now_ts = 3001 and lib = "sample_lib ''65b1'' 3001" and db = ada_db]
    by blast
  have r3: "Feedback (snd (fst (post_api_register_mongo plain_runtime (sample_lib ''65a2'' 2001) ada_db ada))) =
       Feedback ada_db"
    using c submissions_frame [where rt = plain_runtime and st = empty_store and req_body = ada
        and now_id = 1000 and now_ts = 1001 and lib = "sample_lib ''65a2'' 2001" and db = ada_db]
    by blast
  have r4: "Registration (snd (post_api_feedback_mongo plain_runtime (sample_lib ''65b1'' 3001) ada_db ?fb)) =
       Registration ada_db"
    using d submissions_frame [where rt = plain_runtime and st = ada_store and req_body = ?fb
        and now_id = 3000 and now_ts = 3001 and lib = "sample_lib ''65b1'' 3001" and db = ada_db]
    by blast
  from a b c d r1 r2 r3 r4 show ?thesis
    by (simp add: e)
qed

text \<open>
  C1. Two valid registrations with the same email. The database server only logs the
  collision: a valid registration succeeds whether or not \<^verbatim>\<open>findOne\<close> finds a document
  with that email, provided the database calls do not throw; the new document is appended
  to the collection and is listed as long as the collection holds at most 200 documents.
  The file-backed server has a guard instead: a registration whose email is strictly equal
  to the email of a stored record is answered 400 \<^verbatim>\<open>Email already registered\<close> and
  the store stays as it was; when no stored email is equal, the record is appended.
\<close>

theorem duplicate_email_policy:
  assumes "missing_fields req_body = []" and "\<not> too_many_interests rt req_body"
  shows "(reachable db
          \<and> findOne_email lib (Registration db) (js_get req_body ''email'') = Inr existingUser
          \<and> cast_Registration lib req_body = Inr doc \<longrightarrow>
            post_api_register_mongo rt lib db req_body =
              ((\<lparr>status = 200,
                 json_body = Fields [(''success'', JBool True),
                                     (''message'', JStr ''Registration successful''),
                                     (''id'', JStr (doc_id doc))]\<rparr>,
                db\<lparr>Registration := Registration db @ [doc]\<rparr>),
               (case existingUser of
                  None \<Rightarrow> []
                | Some u \<Rightarrow> [Email_already_registered (js_get req_body ''email'')])))
       \<and> (reachable db \<and> length (Registration db) < 200 \<longrightarrow>
            (\<exists>results.
               get_api_admin_registrations_mongo lib (db\<lparr>Registration := Registration db @ [doc]\<rparr>) None =
                 \<lparr>status = 200, json_body = Items results\<rparr>
               \<and> mset results = mset (Registration db @ [doc])))
       \<and> ((\<exists>reg \<in> set (registrations st). strict_eq (reg_email reg) (js_get req_body ''email'')) \<longrightarrow>
            post_api_register_file rt st req_body now_id now_ts =
              (\<lparr>status = 400,
                json_body = Fields [(''success'', JBool False),
                                    (''message'', JStr ''Email already registered'')]\<rparr>, st))
       \<and> ((\<forall>reg \<in> set (registrations st). \<not> strict_eq (reg_email reg) (js_get req_body ''email'')) \<longrightarrow>
            post_api_register_file rt st req_body now_id now_ts =
              (\<lparr>status = 200,
                json_body = Fields [(''success'', JBool True),
                                    (''message'', JStr ''Registration successful''),
                                    (''id'', JNum (of_int now_id))]\<rparr>,
               st\<lparr>registrations := registrations st @ [new_registration req_body now_id now_ts]\<rparr>))"
proof -
  have on_db: "reachable db
          \<and> findOne_email lib (Registration db) (js_get req_body ''email'') = Inr existingUser
          \<and> cast_Registration lib req_body = Inr doc \<longrightarrow>
            post_api_register_mongo rt lib db req_body =
              ((registered (JStr (doc_id doc)), db\<lparr>Registration := Registration db @ [doc]\<rparr>),
               (case existingUser of
                  None \<Rightarrow> []
                | Some u \<Rightarrow> [Email_already_registered (js_get req_body ''email'')]))"
    using assms
    by (simp add: post_api_register_mongo_def Registration_findOne_def Registration_create_def)
  have listed: "reachable db \<and> length (Registration db) < 200 \<longrightarrow>
            (\<exists>results.
               get_api_admin_registrations_mongo lib (db\<lparr>Registration := Registration db @ [doc]\<rparr>) None =
                 \<lparr>status = 200, json_body = Items results\<rparr>
               \<and> mset results = mset (Registration db @ [doc]))"
    by (simp add: get_api_admin_registrations_mongo_def registrations_query_def find_sorted_def
          mset_newest_first length_newest_first)
  have rejected: "(\<exists>reg \<in> set (registrations st). strict_eq (reg_email reg) (js_get req_body ''email'')) \<longrightarrow>
            post_api_register_file rt st req_body now_id now_ts =
              (failure 400 ''Email already registered'', st)"
  proof
    assume "\<exists>reg \<in> set (registrations st). strict_eq (reg_email reg) (js_get req_body ''email'')"
    then have "find (\<lambda>reg. strict_eq (reg_email reg) (js_get req_body ''email'')) (registrations st) \<noteq> None"
      by (auto simp: find_None_iff)
    then obtain r where "find (\<lambda>reg. strict_eq (reg_email reg) (js_get req_body ''email'')) (registrations st) = Some r"
      by blast
    with assms show "post_api_register_file rt st req_body now_id now_ts =
              (failure 400 ''Email already registered'', st)"
      by (simp add: post_api_register_file_def)
  qed
  have accepted: "(\<forall>reg \<in> set (registrations st). \<not> strict_eq (reg_email reg) (js_get req_body ''email'')) \<longrightarrow>
            post_api_register_file rt st req_body now_id now_ts =
              (registered (JNum (of_int now_id)),
               st\<lparr>registrations := registrations st @ [new_registration req_body now_id now_ts]\<rparr>)"
  proof
    assume "\<forall>reg \<in> set (registrations st). \<not> strict_eq (reg_email reg) (js_get req_body ''email'')"
    then have "find (\<lambda>reg. strict_eq (reg_email reg) (js_get req_body ''email'')) (registrations st) = None"
      by (simp add: find_None_iff)
    with assms show "post_api_register_file rt st req_body now_id now_ts =
              (registered (JNum (of_int now_id)),
               st\<lparr>registrations := registrations st @ [new_registration req_body now_id now_ts]\<rparr>)"
      by (simp add: post_api_register_file_def Let_def new_registration_def)
  qed
  from on_db listed rejected accepted show ?thesis
    by (simp add: registered_def failure_def)
qed

theorem duplicate_email_policy_witness:
  "missing_fields ada = [] \<and> \<not> too_many_interests plain_runtime ada
   \<and> reachable ada_db
   \<and> findOne_email (sample_lib ''65a2'' 2001) (Registration ada_db) (js_get ada ''email'') =
       Inr (Some (ada_doc ''65a1'' 1001))
   \<and> cast_Registration (sample_lib ''65a2'' 2001) ada = Inr (ada_doc ''65a2'' 2001)
   \<and> length (Registration ada_db) < 200
   \<and> (\<exists>reg \<in> set (registrations ada_store). strict_eq (reg_email reg) (js_get ada ''email''))
   \<and> registrations empty_store = []
   \<and> post_api_register_mongo plain_runtime (sample_lib ''65a2'' 2001) ada_db ada =
       ((\<lparr>status = 200,
          json_body = Fields [(''success'', JBool True),
                              (''message'', JStr ''Registration successful''),
                              (''id'', JStr ''65a2'')]\<rparr>,
         ada_db\<lparr>Registration := [ada_doc ''65a1'' 1001, ada_doc ''65a2'' 2001]\<rparr>),
        [Email_already_registered (Some (JStr ''ada@example.com''))])
   \<and> post_api_register_file plain_runtime ada_store ada 2000 2001 =
       (\<lparr>status = 400,
         json_body = Fields [(''success'', JBool False),
                             (''message'', JStr ''Email already registered'')]\<rparr>, ada_store)"
proof -
  have v: "missing_fields ada = []" "\<not> too_many_interests plain_runtime ada"
    by (simp_all add: missing_fields_def required_def ada_def js_get_def too_many_interests_def)
  have f: "findOne_email (sample_lib ''65a2'' 2001) (Registration ada_db) (js_get ada ''email'') =
       Inr (Some (ada_doc ''65a1'' 1001))"
    by (simp add: sample_lib_def ada_db_def ada_def js_get_def ada_doc_def trim_def is_space_def
          toLowerCase_def toLowerCase_char_def)
  have c: "cast_Registration (sample_lib ''65a2'' 2001) ada = Inr (ada_doc ''65a2'' 2001)"
    by (simp add: sample_lib_def ada_def js_get_def ada_doc_def text_field_def trim_def is_space_def
          toLowerCase_def toLowerCase_char_def)
  have e: "js_get ada ''email'' = Some (JStr ''ada@example.com'')"
    by (simp add: ada_def js_get_def)
  have s: "\<exists>reg \<in> set (registrations ada_store). strict_eq (reg_email reg) (js_get ada ''email'')"
    by (simp add: ada_store_def new_registration_def e)
  have r: "reachable ada_db" "length (Registration ada_db) < 200" "Registration ada_db = [ada_doc ''65a1'' 1001]"
    by (simp_all add: ada_db_def)
  show ?thesis
    using v f c s r e
      duplicate_email_policy [OF v, of ada_db "sample_lib ''65a2'' 2001" "Some (ada_doc ''65a1'' 1001)"
        "ada_doc ''65a2'' 2001" ada_store 2000 2001]
    by (simp add: empty_store_def ada_doc_def)
qed

text \<open>
  The claim C1 as worded, that both submissions succeed, fails on the file-backed server:
  the first submission of a valid payload is answered 200, the second submission of the
  same payload 400, and the store still holds one record.
\<close>

theorem duplicate_email_counterexample:
  "missing_fields ada = [] \<and> \<not> too_many_interests plain_runtime ada
   \<and> post_api_register_file plain_runtime empty_store ada 1000 1001 =
       (\<lparr>status = 200,
         json_body = Fields [(''success'', JBool True),
                             (''message'', JStr ''Registration successful''),
                             (''id'', JNum 1000)]\<rparr>, ada_store)
   \<and> post_api_register_file plain_runtime ada_store ada 2000 2001 =
       (\<lparr>status = 400,
         json_body = Fields [(''success'', JBool False),
                             (''message'', JStr ''Email already registered'')]\<rparr>, ada_store)"
  by (simp add: post_api_register_file_def missing_fields_def required_def ada_def js_get_def
        too_many_interests_def empty_store_def ada_store_def registered_def failure_def
        new_registration_def or_default_def)










text \<open>
  C5. A feedback whose only text is blank. The file-backed server tests the fields before it
  trims them: the payload with \<^verbatim>\<open>feedback1\<close> of three spaces passes the check, is
  answered 200, and is stored with both feedback fields empty.
\<close>

theorem blank_feedback_accepted:
  "post_api_feedback_file rt st [(''feedback1'', JStr ''   '')] now_id now_ts =
     (\<lparr>status = 200,
       json_body = Fields [(''success'', JBool True),
                           (''message'', JStr ''Feedback submitted successfully'')]\<rparr>,
      st\<lparr>feedbacks := feedbacks st @
           [\<lparr>fb_id = now_id, fb_feedback1 = [], fb_feedback2 = [], fb_rating = None,
             fb_timestamp = now_ts\<rparr>]\<rparr>)"
  by (simp add: post_api_feedback_file_def js_get_def rating_rejected_def trimmed_or_empty_def
        parsed_rating_def succeeded_def trim_def is_space_def)

text \<open>
  C6. The feedback views of the database server and of the admin router. A stored feedback
  with two answers is listed with the first answer alone as its text, and the view holds
  neither original field: whatever the second answer is, the view is the same.
\<close>

theorem second_answer_dropped:
  "get_api_admin_feedbacks_mongo \<lparr>Registration = [], Feedback = [two_answers], reachable = True\<rparr> =
     \<lparr>status = 200,
      json_body = Items [\<lparr>fmt_name = ''Customer Feedback'', fmt_text = ''Great event'',
                          fmt_rating = Some 5, fmt_timestamp = 3001, fmt_id = ''65b1''\<rparr>]\<rparr>
   \<and> format_fb_doc (two_answers\<lparr>fdoc_feedback2 := other\<rparr>) = format_fb_doc two_answers
   \<and> format_router_doc \<lparr>properties = [(''feedback1'', JStr ''Great event''), (''feedback2'', other_value)],
                          createdAt = 3001\<rparr> =
       \<lparr>cf_name = ''Customer'', cf_text = JStr ''Great event'', cf_rating = None, cf_timestamp = 3001\<rparr>"
  by (simp add: get_api_admin_feedbacks_mongo_def find_sorted_def newest_first_def two_answers_def
        format_fb_doc_def first_text_def format_router_doc_def or_default_def js_get_def)

text \<open>
  C8. The consent of a registration in the file-backed server. A valid payload with the
  consent \<^verbatim>\<open>"yes"\<close> is accepted, and the stored consent is the string \<^verbatim>\<open>"yes"\<close>, not a
  boolean.
\<close>

theorem consent_stored_as_sent:
  "post_api_register_file rt empty_store (ada @ [(''consent'', JStr ''yes'')]) now_id now_ts =
     (\<lparr>status = 200,
       json_body = Fields [(''success'', JBool True),
                           (''message'', JStr ''Registration successful''),
                           (''id'', JNum (of_int now_id))]\<rparr>,
      \<lparr>registrations = [new_registration (ada @ [(''consent'', JStr ''yes'')]) now_id now_ts],
       feedbacks = []\<rparr>)
   \<and> reg_consent (new_registration (ada @ [(''consent'', JStr ''yes'')]) now_id now_ts) = JStr ''yes''"
  by (simp add: post_api_register_file_def missing_fields_def required_def ada_def js_get_def
        too_many_interests_def empty_store_def registered_def new_registration_def or_default_def)


end
